theory Spec2Isabelle
  imports Main "HOL-Library.Word"
begin

section \<open>Data model (src/types/monkeymask.ts)\<close>

text \<open>
  The payload types of the wallet provider. \<open>AccountInfo\<close> is the only one whose
  fields the bridge reads (\<open>cached.data.balance\<close>); the others are passed through.
  Selectors of the pass-through types carry a prefix so that they do not clash with the
  fields of \<open>AccountInfo\<close> and of the bridge state.
\<close>

record AccountInfo =
  address :: string
  balance :: string
  pending :: string
  rawBalance :: string
  rawPending :: string

datatype block_type = Send | Receive | Change | State

datatype Block = Block
  (block_type: block_type) (block_account: string) (block_previous: string)
  (block_representative: string) (block_balance: string) (block_link: string)
  (block_signature: "string option") (block_work: "string option")
  (block_amount: "string option")

datatype SignMessageResult = SignMessageResult (smr_signature: "8 word list") (smr_publicKey: string)

datatype SignBlockResult = SignBlockResult (sbr_signature: string) (sbr_work: "string option")

datatype TransactionResult = TransactionResult (tx_hash: string) (tx_block: Block)

datatype encoding = Utf8 | Hex

text \<open>
  A value thrown by the provider (a rejected promise). The bridge reads
  \<open>(err as Error)?.message\<close>; the HTTP handler tests \<open>instanceof Error\<close>. So a thrown
  value is an \<open>Error\<close> with its message, or any other value, which may or may not
  carry a string \<open>message\<close> property.
\<close>

datatype thrown = ErrorObject string | NonError "string option"

fun message_of :: "thrown \<Rightarrow> string option" where
  "message_of (ErrorObject m) = Some m"
| "message_of (NonError mo) = mo"

section \<open>The provider bridge (src/providers/MonkeyMaskProvider.tsx)\<close>

subsection \<open>State\<close>

text \<open>
  Calls the bridge makes on the injected provider, and invocations of the optional
  configuration callbacks (\<open>onConnect?.(..)\<close>, \<open>onDisconnect?.()\<close>, \<open>onError?.(..)\<close>),
  are recorded in two traces, oldest first. A callback is assumed not to throw.
\<close>

datatype provider_call =
    PConnect bool
  | PDisconnect
  | PGetAccounts
  | PGetAccountInfo string
  | PSendTransaction string string string
  | PSignMessage string encoding
  | PVerifySignedMessage string string string encoding
  | PSignBlock Block
  | PSendBlock Block
  | PResolveBNS string

datatype callback = OnConnect string | OnDisconnect | OnError string

text \<open>
  The component state: the \<open>useState\<close> cells, the two \<open>useRef\<close> maps, the locals of
  the mount effect (\<open>initializedRef.current\<close>, \<open>retryCount\<close>), the pending timers with
  the time they are due, the configuration flag \<open>autoConnect\<close>, the dependency values
  \<open>[autoConnect, provider, userDisconnected]\<close> with which the auto-connect effect last
  ran, and the two traces.
  \<open>provider\<close> is whether the \<open>provider\<close> cell holds the handle (it only ever holds
  \<open>window.banano\<close>). A promise stored in the in-flight map is named by the index of
  its provider call in \<open>calls\<close>.
\<close>

record bridge =
  autoConnect :: bool
  provider :: bool
  isInstalled :: bool
  isConnected :: bool
  isConnecting :: bool
  publicKey :: "string option"
  accounts :: "string list"
  error :: "string option"
  userDisconnected :: bool
  accountInfoCache :: "string \<rightharpoonup> (int \<times> AccountInfo)"
  accountInfoInFlight :: "string \<rightharpoonup> nat"
  initialized :: bool
  retryCount :: nat
  pollTimer :: "int option"
  autoConnectTimer :: "int option"
  effectDeps :: "bool \<times> bool \<times> bool"
  calls :: "provider_call list"
  callbacks :: "callback list"

definition ACCOUNT_INFO_TTL_MS :: int where
  "ACCOUNT_INFO_TTL_MS = 5000"

definition maxRetries :: nat where
  "maxRetries = 3"

text \<open>
  The state of the first render: every \<open>useState\<close> default, empty maps, no timer. The
  auto-connect effect has run once, with no provider, and has set no timer.
\<close>

definition initial :: "bool \<Rightarrow> bridge" where
  "initial auto =
     \<lparr> autoConnect = auto, provider = False, isInstalled = False, isConnected = False,
       isConnecting = False, publicKey = None, accounts = [], error = None,
       userDisconnected = False, accountInfoCache = Map.empty,
       accountInfoInFlight = Map.empty, initialized = False, retryCount = 0,
       pollTimer = None, autoConnectTimer = None, effectDeps = (auto, False, False),
       calls = [], callbacks = [] \<rparr>"

subsection \<open>Error classification: \<open>handleError\<close> and \<open>clearError\<close>\<close>

text \<open>JavaScript's \<open>String.prototype.startsWith\<close> and \<open>String.prototype.includes\<close> on ASCII text (\<open>includes\<close> is a reserved word of the prover, hence the suffix).\<close>

fun startsWith :: "string \<Rightarrow> string \<Rightarrow> bool" where
  "startsWith s [] = True"
| "startsWith [] (c # cs) = False"
| "startsWith (x # xs) (c # cs) = (x = c \<and> startsWith xs cs)"

fun includes_str :: "string \<Rightarrow> string \<Rightarrow> bool" where
  "includes_str [] sub = (sub = [])"
| "includes_str (x # xs) sub = (startsWith (x # xs) sub \<or> includes_str xs sub)"

text \<open>\<open>(err as Error)?.message || defaultMessage\<close>: an empty message is falsy.\<close>

definition errorMessage_of :: "thrown \<Rightarrow> string \<Rightarrow> string" where
  "errorMessage_of err defaultMessage =
     (case message_of err of
        None \<Rightarrow> defaultMessage
      | Some m \<Rightarrow> if m = [] then defaultMessage else m)"

definition handleError :: "bridge \<Rightarrow> thrown \<Rightarrow> string \<Rightarrow> bridge" where
  "handleError st err defaultMessage =
     (let errorMessage = errorMessage_of err defaultMessage;
          st1 =
            (if includes_str errorMessage ''Extension context invalidated''
                \<or> includes_str errorMessage ''context invalidated''
                \<or> includes_str errorMessage ''message port closed''
             then st\<lparr> error := Some ''Extension connection lost. Please refresh the page.'',
                      isConnected := False, publicKey := None, accounts := [] \<rparr>
             else if includes_str errorMessage ''Wallet is locked''
                \<or> includes_str errorMessage ''locked''
                \<or> includes_str errorMessage ''unlock''
             then st\<lparr> error := Some ''Wallet is locked. The extension will prompt you to unlock for this transaction.'' \<rparr>
             else if includes_str errorMessage ''User rejected''
                \<or> includes_str errorMessage ''rejected''
             then st\<lparr> error := Some ''Transaction was rejected by user.'' \<rparr>
             else st\<lparr> error := Some errorMessage \<rparr>)
      in st1\<lparr> callbacks := callbacks st1 @ [OnError errorMessage] \<rparr>)"

definition clearError :: "bridge \<Rightarrow> bridge" where
  "clearError st = st\<lparr> error := None \<rparr>"

subsection \<open>Provider events\<close>

text \<open>
  The three listeners registered by \<open>initializeProvider\<close>. In the \<open>connect\<close> event
  \<open>data.accounts || [data.publicKey]\<close> replaces only a missing list: an empty array is
  truthy in JavaScript and is kept.
\<close>

definition connect_event :: "bridge \<Rightarrow> string \<Rightarrow> string list option \<Rightarrow> bridge" where
  "connect_event st pk accs =
     (clearError
        (st\<lparr> isConnected := True, publicKey := Some pk,
             accounts := (case accs of None \<Rightarrow> [pk] | Some l \<Rightarrow> l),
             userDisconnected := False \<rparr>))
       \<lparr> accountInfoCache := Map.empty, callbacks := callbacks st @ [OnConnect pk] \<rparr>"

definition disconnect_event :: "bridge \<Rightarrow> bridge" where
  "disconnect_event st =
     st\<lparr> isConnected := False, publicKey := None, accounts := [],
         accountInfoCache := Map.empty, callbacks := callbacks st @ [OnDisconnect] \<rparr>"

definition accountChanged_event :: "bridge \<Rightarrow> string \<Rightarrow> bridge" where
  "accountChanged_event st newPublicKey =
     st\<lparr> isConnected := True, publicKey := Some newPublicKey, accounts := [newPublicKey],
         accountInfoCache := Map.empty, callbacks := callbacks st @ [OnConnect newPublicKey] \<rparr>"

subsection \<open>Discovery of the injected handle\<close>

text \<open>
  \<open>initializeProvider\<close> and \<open>tryInitialize\<close> of the mount effect. \<open>banano\<close> is the
  value of \<open>typeof window !== 'undefined' && window.banano\<close> at the time of the check,
  \<open>now\<close> the time of the check; \<open>setTimeout(tryInitialize, 500)\<close> leaves a timer due at
  \<open>now + 500\<close>. The timer that started a check is spent, so \<open>pollTimer\<close> is reset before
  the check decides whether to set a new one.
\<close>

definition initializeProvider :: "bridge \<Rightarrow> bool \<Rightarrow> bridge" where
  "initializeProvider st banano =
     (if initialized st then st
      else if banano then st\<lparr> initialized := True, provider := True, isInstalled := True \<rparr>
      else st\<lparr> isInstalled := False \<rparr>)"

definition tryInitialize :: "bridge \<Rightarrow> int \<Rightarrow> bool \<Rightarrow> bridge" where
  "tryInitialize st now banano =
     (let st1 = (initializeProvider st banano)\<lparr> pollTimer := None \<rparr>
      in if \<not> initialized st1 \<and> retryCount st1 < maxRetries
         then st1\<lparr> retryCount := retryCount st1 + 1, pollTimer := Some (now + 500) \<rparr>
         else st1)"

subsection \<open>The auto-connect effect\<close>

text \<open>
  The second \<open>useEffect\<close>, with dependencies \<open>[autoConnect, provider, userDisconnected]\<close>.
  A state setter only queues an update. At the next render React compares the
  dependencies with those of the effect's last run and, if one differs, runs the cleanup
  of that run (\<open>clearTimeout\<close>) and then the body again. \<open>render\<close> is that render with
  its effects, at time \<open>now\<close>; it is a step of its own, so a timer can fire between a state
  change and the render that follows it. \<open>autoConnect_timeout\<close> is the timer's callback,
  which does not look at \<open>userDisconnected\<close>; \<open>provider_isConnected\<close> is the provider's
  own \<open>isConnected\<close> property read at that time. The call's rejection is swallowed by
  \<open>.catch(() => {})\<close>.
\<close>

definition autoConnect_effect :: "bridge \<Rightarrow> int \<Rightarrow> bridge" where
  "autoConnect_effect st now =
     (if autoConnect st \<and> provider st \<and> \<not> userDisconnected st
      then st\<lparr> autoConnectTimer := Some (now + 800) \<rparr>
      else st\<lparr> autoConnectTimer := None \<rparr>)"

definition render :: "bridge \<Rightarrow> int \<Rightarrow> bridge" where
  "render st now =
     (if (autoConnect st, provider st, userDisconnected st) = effectDeps st
      then st
      else (autoConnect_effect st now)
             \<lparr> effectDeps := (autoConnect st, provider st, userDisconnected st) \<rparr>)"

definition autoConnect_timeout :: "bridge \<Rightarrow> bool \<Rightarrow> bridge" where
  "autoConnect_timeout st provider_isConnected =
     (let st1 = st\<lparr> autoConnectTimer := None \<rparr>
      in if provider st \<and> \<not> provider_isConnected
         then st1\<lparr> calls := calls st1 @ [PConnect True] \<rparr>
         else st1)"

text \<open>
  Mounting the component at time \<open>now\<close>: the first check for the handle, then the render
  that follows it.
\<close>

definition mount :: "bool \<Rightarrow> int \<Rightarrow> bool \<Rightarrow> bridge" where
  "mount auto now banano = render (tryInitialize (initial auto) now banano) now"

subsection \<open>Action wrappers\<close>

text \<open>
  Every wrapper is an \<open>async\<close> function. It runs up to its first \<open>await\<close> and either
  has returned by then (\<open>Returned v\<close>) or is suspended on a promise (\<open>Awaiting p\<close>, with
  \<open>p\<close> the index in \<open>calls\<close> of the provider call that made the promise). The part after
  the \<open>await\<close> is a function of its own, applied to the state at the time the promise
  settles, and to how it settled: \<open>Inr v\<close> when it resolved with \<open>v\<close>, \<open>Inl e\<close> when it was
  rejected with \<open>e\<close>. For a promise of \<open>void\<close> the result is \<open>None\<close> (resolved) or
  \<open>Some e\<close>. The wrappers read the current \<open>provider\<close> and \<open>publicKey\<close>: a call is
  taken to come after the render that follows their last change.
\<close>

datatype 'a outcome = Returned 'a | Awaiting nat

definition not_installed :: "bridge \<Rightarrow> bridge" where
  "not_installed st =
     handleError st (ErrorObject ''MonkeyMask not installed'') ''MonkeyMask extension not found''"

definition no_account :: "bridge \<Rightarrow> bridge" where
  "no_account st =
     handleError st (ErrorObject ''No account selected'') ''Please connect your wallet first''"

definition call_provider :: "bridge \<Rightarrow> provider_call \<Rightarrow> bridge \<times> 'a outcome" where
  "call_provider st c = (st\<lparr> calls := calls st @ [c] \<rparr>, Awaiting (length (calls st)))"

text \<open>JavaScript truthiness of a \<open>string | null | undefined\<close>: null and \<open>''\<close> are falsy.\<close>

fun truthy :: "string option \<Rightarrow> bool" where
  "truthy None = False"
| "truthy (Some s) = (s \<noteq> [])"

text \<open>\<open>x || ''\<close>: the string itself when there is one.\<close>

fun or_empty :: "string option \<Rightarrow> string" where
  "or_empty None = []"
| "or_empty (Some s) = s"

definition connect_begin :: "bridge \<Rightarrow> bridge \<times> unit outcome" where
  "connect_begin st =
     (if \<not> provider st then (not_installed st, Returned ())
      else call_provider
             ((clearError (st\<lparr> isConnecting := True \<rparr>))\<lparr> userDisconnected := False \<rparr>)
             (PConnect False))"

definition connect_end :: "bridge \<Rightarrow> thrown option \<Rightarrow> bridge" where
  "connect_end st r =
     (case r of
        None \<Rightarrow> st
      | Some err \<Rightarrow> handleError st err ''Failed to connect to MonkeyMask'')
       \<lparr> isConnecting := False \<rparr>"

definition disconnect_begin :: "bridge \<Rightarrow> bridge \<times> unit outcome" where
  "disconnect_begin st =
     (if \<not> provider st then (st, Returned ())
      else call_provider (st\<lparr> userDisconnected := True \<rparr>) PDisconnect)"

definition disconnect_end :: "bridge \<Rightarrow> thrown option \<Rightarrow> bridge" where
  "disconnect_end st r =
     (case r of None \<Rightarrow> st | Some err \<Rightarrow> handleError st err ''Failed to disconnect'')"

definition getAccounts_begin :: "bridge \<Rightarrow> bridge \<times> string list outcome" where
  "getAccounts_begin st =
     (if \<not> provider st then (not_installed st, Returned [])
      else call_provider st PGetAccounts)"

definition getAccounts_end :: "bridge \<Rightarrow> thrown + string list \<Rightarrow> bridge \<times> string list" where
  "getAccounts_end st r =
     (case r of
        Inr accs \<Rightarrow> (st\<lparr> accounts := accs \<rparr>, accs)
      | Inl err \<Rightarrow> (handleError st err ''Failed to get accounts'', []))"

subsection \<open>Account info: cache and in-flight registry\<close>

text \<open>
  \<open>address || publicKey || ''\<close>: the explicit argument if it is truthy, else the active
  account, else the empty string.
\<close>

definition target_of :: "bridge \<Rightarrow> string option \<Rightarrow> string" where
  "target_of st addr =
     (if truthy addr then or_empty addr
      else if truthy (publicKey st) then or_empty (publicKey st)
      else [])"

text \<open>\<open>cached && Date.now() - cached.ts < ACCOUNT_INFO_TTL_MS\<close>\<close>

definition fresh :: "bridge \<Rightarrow> int \<Rightarrow> string \<Rightarrow> bool" where
  "fresh st now target =
     (case accountInfoCache st target of
        None \<Rightarrow> False
      | Some (ts, info) \<Rightarrow> now - ts < ACCOUNT_INFO_TTL_MS)"

text \<open>
  \<open>getAccountInfo\<close> up to its first \<open>await\<close>; \<open>now\<close> is \<open>Date.now()\<close> at the cache
  check. A new request is entered in the in-flight map under its target before the
  function suspends.
\<close>

definition getAccountInfo_begin ::
  "bridge \<Rightarrow> int \<Rightarrow> string option \<Rightarrow> bridge \<times> AccountInfo option outcome" where
  "getAccountInfo_begin st now addr =
     (if \<not> provider st then (not_installed st, Returned None)
      else let target = target_of st addr
       in if target = [] then (st, Returned None)
          else if fresh st now target
            then (st, Returned (map_option snd (accountInfoCache st target)))
          else (case accountInfoInFlight st target of
                  Some existingPromise \<Rightarrow> (st, Awaiting existingPromise)
                | None \<Rightarrow>
                    call_provider
                      (st\<lparr> accountInfoInFlight :=
                             (accountInfoInFlight st)(target \<mapsto> length (calls st)) \<rparr>)
                      (PGetAccountInfo target)))"

text \<open>
  The \<open>.then\<close> and \<open>.catch\<close> handlers chained on the provider's promise for \<open>target\<close>;
  they run when it settles, at time \<open>now\<close>, before any caller awaiting the chained promise
  resumes.
\<close>

definition accountInfo_settled ::
  "bridge \<Rightarrow> int \<Rightarrow> string \<Rightarrow> thrown + AccountInfo \<Rightarrow> bridge" where
  "accountInfo_settled st now target r =
     (case r of
        Inr info \<Rightarrow>
          st\<lparr> accountInfoCache := (accountInfoCache st)(target \<mapsto> (now, info)),
              accountInfoInFlight := (accountInfoInFlight st)(target := None) \<rparr>
      | Inl e \<Rightarrow> st\<lparr> accountInfoInFlight := (accountInfoInFlight st)(target := None) \<rparr>)"

text \<open>
  What a suspended \<open>getAccountInfo\<close> does when the promise it awaits settles: the caller
  that made the request (\<open>await p\<close>) and a caller that found it in flight
  (\<open>await existingPromise\<close>) run the same code.
\<close>

definition getAccountInfo_end ::
  "bridge \<Rightarrow> thrown + AccountInfo \<Rightarrow> bridge \<times> AccountInfo option" where
  "getAccountInfo_end st r =
     (case r of
        Inr info \<Rightarrow> (st, Some info)
      | Inl err \<Rightarrow> (handleError st err ''Failed to get account info'', None))"

text \<open>
  \<open>getBalance\<close> reads the clock for its own cache check (\<open>now1\<close>), and the
  \<open>getAccountInfo\<close> it awaits reads it again (\<open>now2\<close>). \<open>info?.balance ?? null\<close> maps the
  balance field over the optional result.
\<close>

definition getBalance_begin ::
  "bridge \<Rightarrow> int \<Rightarrow> int \<Rightarrow> string option \<Rightarrow> bridge \<times> string option outcome" where
  "getBalance_begin st now1 now2 addr =
     (if \<not> provider st then (not_installed st, Returned None)
      else let target = target_of st addr
       in if target = [] then (st, Returned None)
          else if fresh st now1 target
            then (st, Returned (map_option (balance \<circ> snd) (accountInfoCache st target)))
          else (case getAccountInfo_begin st now2 (Some target) of
                  (st1, Returned info) \<Rightarrow> (st1, Returned (map_option balance info))
                | (st1, Awaiting p) \<Rightarrow> (st1, Awaiting p)))"

definition getBalance_end :: "bridge \<Rightarrow> thrown + AccountInfo \<Rightarrow> bridge \<times> string option" where
  "getBalance_end st r =
     (case getAccountInfo_end st r of (st1, info) \<Rightarrow> (st1, map_option balance info))"

subsection \<open>Transactions, signing and name resolution\<close>

text \<open>
  \<open>sendTransaction\<close> has two suspension points when the destination looks like a BNS
  name. \<open>sendTransaction_resolved\<close> is the code after \<open>await provider.resolveBNS(to)\<close>;
  it still holds the \<open>publicKey\<close>, \<open>to\<close> and \<open>amount\<close> of the call. The resolver is
  typed to give a string, but the code also tests for a missing one, so its result is a
  \<open>string option\<close>.
\<close>

definition sendTransaction_resolved ::
  "bridge \<Rightarrow> string \<Rightarrow> string \<Rightarrow> string \<Rightarrow> thrown + string option \<Rightarrow> bridge \<times> string option outcome" where
  "sendTransaction_resolved st pk dest amount r =
     (case r of
        Inl bnsError \<Rightarrow>
          (handleError st bnsError (''Failed to resolve BNS name: '' @ dest), Returned None)
      | Inr resolvedAddress \<Rightarrow>
          if \<not> truthy resolvedAddress
          then (handleError st (ErrorObject (''Failed to resolve BNS name: '' @ dest))
                  ''BNS resolution failed'', Returned None)
          else call_provider st (PSendTransaction pk (or_empty resolvedAddress) amount))"

definition sendTransaction_begin ::
  "bridge \<Rightarrow> string \<Rightarrow> string \<Rightarrow> bridge \<times> string option outcome" where
  "sendTransaction_begin st dest amount =
     (if \<not> provider st then (not_installed st, Returned None)
      else if \<not> truthy (publicKey st) then (no_account st, Returned None)
      else if includes_str dest ''.ban'' \<or> includes_str dest ''.banano''
        then call_provider st (PResolveBNS dest)
      else call_provider st (PSendTransaction (or_empty (publicKey st)) dest amount))"

definition sendTransaction_end ::
  "bridge \<Rightarrow> thrown + TransactionResult \<Rightarrow> bridge \<times> string option" where
  "sendTransaction_end st r =
     (case r of
        Inr result \<Rightarrow> (st, Some (tx_hash result))
      | Inl err \<Rightarrow> (handleError st err ''Failed to send transaction'', None))"

text \<open>
  \<open>Array.from(result.signature, byte => byte.toString(16).padStart(2, '0')).join('')\<close>
\<close>

definition hex_digit :: "nat \<Rightarrow> char" where
  "hex_digit n = ''0123456789abcdef'' ! (n mod 16)"

definition toString16 :: "8 word \<Rightarrow> string" where
  "toString16 b =
     (if unat b < 16 then [hex_digit (unat b)]
      else [hex_digit (unat b div 16), hex_digit (unat b mod 16)])"

definition padStart2 :: "string \<Rightarrow> string" where
  "padStart2 s = replicate (2 - length s) (CHR ''0'') @ s"

definition signature_hex :: "8 word list \<Rightarrow> string" where
  "signature_hex bytes = concat (map (\<lambda>byte. padStart2 (toString16 byte)) bytes)"

definition signMessage_begin ::
  "bridge \<Rightarrow> string \<Rightarrow> encoding option \<Rightarrow> bridge \<times> string option outcome" where
  "signMessage_begin st msg enc =
     (if \<not> provider st then (not_installed st, Returned None)
      else if \<not> truthy (publicKey st) then (no_account st, Returned None)
      else call_provider st (PSignMessage msg (case enc of None \<Rightarrow> Utf8 | Some e \<Rightarrow> e)))"

definition signMessage_end ::
  "bridge \<Rightarrow> thrown + SignMessageResult \<Rightarrow> bridge \<times> string option" where
  "signMessage_end st r =
     (case r of
        Inr result \<Rightarrow> (st, Some (signature_hex (smr_signature result)))
      | Inl err \<Rightarrow> (handleError st err ''Failed to sign message'', None))"

definition verifySignedMessage_begin ::
  "bridge \<Rightarrow> string \<Rightarrow> string \<Rightarrow> string option \<Rightarrow> encoding option \<Rightarrow> bridge \<times> bool option outcome" where
  "verifySignedMessage_begin st msg signatureHex publicKeyParam enc =
     (if \<not> provider st then (not_installed st, Returned None)
      else let keyToUse = (if truthy publicKeyParam then publicKeyParam else publicKey st)
       in if \<not> truthy keyToUse then (no_account st, Returned None)
          else call_provider st
                 (PVerifySignedMessage msg signatureHex (or_empty keyToUse)
                    (case enc of None \<Rightarrow> Utf8 | Some e \<Rightarrow> e)))"

definition verifySignedMessage_end :: "bridge \<Rightarrow> thrown + bool \<Rightarrow> bridge \<times> bool option" where
  "verifySignedMessage_end st r =
     (case r of
        Inr isValid \<Rightarrow> (st, Some isValid)
      | Inl err \<Rightarrow> (handleError st err ''Failed to verify signed message'', None))"

definition signBlock_begin :: "bridge \<Rightarrow> Block \<Rightarrow> bridge \<times> SignBlockResult option outcome" where
  "signBlock_begin st block =
     (if \<not> provider st then (not_installed st, Returned None)
      else if \<not> truthy (publicKey st) then (no_account st, Returned None)
      else call_provider st (PSignBlock block))"

definition signBlock_end ::
  "bridge \<Rightarrow> thrown + SignBlockResult \<Rightarrow> bridge \<times> SignBlockResult option" where
  "signBlock_end st r =
     (case r of
        Inr result \<Rightarrow> (st, Some result)
      | Inl err \<Rightarrow> (handleError st err ''Failed to sign block'', None))"

definition sendBlock_begin :: "bridge \<Rightarrow> Block \<Rightarrow> bridge \<times> string option outcome" where
  "sendBlock_begin st block =
     (if \<not> provider st then (not_installed st, Returned None)
      else if \<not> truthy (publicKey st) then (no_account st, Returned None)
      else call_provider st (PSendBlock block))"

definition sendBlock_end :: "bridge \<Rightarrow> thrown + string \<Rightarrow> bridge \<times> string option" where
  "sendBlock_end st r =
     (case r of
        Inr hash \<Rightarrow> (st, Some hash)
      | Inl err \<Rightarrow> (handleError st err ''Failed to send block'', None))"

definition resolveBNS_begin :: "bridge \<Rightarrow> string \<Rightarrow> bridge \<times> string option outcome" where
  "resolveBNS_begin st bnsName =
     (if \<not> provider st then (not_installed st, Returned None)
      else call_provider st (PResolveBNS bnsName))"

definition resolveBNS_end ::
  "bridge \<Rightarrow> string \<Rightarrow> thrown + string option \<Rightarrow> bridge \<times> string option" where
  "resolveBNS_end st bnsName r =
     (case r of
        Inr resolvedAddress \<Rightarrow> (st, resolvedAddress)
      | Inl err \<Rightarrow> (handleError st err (''Failed to resolve BNS name: '' @ bnsName), None))"

subsection \<open>The bridge as a transition system\<close>

text \<open>
  Everything that can happen to a mounted bridge, one atomic piece of JavaScript at a
  time: a timer firing, a provider event, the consumer calling \<open>clearError\<close> or a wrapper
  (which then runs up to its first \<open>await\<close>), a promise settling (which runs the code
  after the \<open>await\<close>), and a render with its effects. A step carries what the environment supplies: whether
  \<open>window.banano\<close> is there, the provider's \<open>isConnected\<close>, the arguments of a call, the
  result of a promise. Provider events reach the bridge only once the listeners are
  registered, and a timer runs only if it is pending and due. The order of steps is not
  restricted beyond that, so the steps cover every interleaving of the real component.
\<close>

datatype step =
    TimerPoll bool
  | TimerAutoConnect bool
  | EvConnect string "string list option"
  | EvDisconnect
  | EvAccountChanged string
  | DoClearError
  | CallConnect
  | EndConnect "thrown option"
  | CallDisconnect
  | EndDisconnect "thrown option"
  | CallGetAccounts
  | EndGetAccounts "thrown + string list"
  | CallGetAccountInfo "string option"
  | SettleAccountInfo string "thrown + AccountInfo"
  | EndGetAccountInfo "thrown + AccountInfo"
  | CallGetBalance "string option" int
  | EndGetBalance "thrown + AccountInfo"
  | CallSendTransaction string string
  | ResolvedSendTransaction string string string "thrown + string option"
  | EndSendTransaction "thrown + TransactionResult"
  | CallSignMessage string "encoding option"
  | EndSignMessage "thrown + SignMessageResult"
  | CallVerifySignedMessage string string "string option" "encoding option"
  | EndVerifySignedMessage "thrown + bool"
  | CallSignBlock Block
  | EndSignBlock "thrown + SignBlockResult"
  | CallSendBlock Block
  | EndSendBlock "thrown + string"
  | CallResolveBNS string
  | EndResolveBNS string "thrown + string option"
  | Render

fun perform :: "int \<Rightarrow> step \<Rightarrow> bridge \<Rightarrow> bridge" where
  "perform now (TimerPoll banano) st =
     (case pollTimer st of
        None \<Rightarrow> st
      | Some due \<Rightarrow> if due \<le> now then tryInitialize st now banano else st)"
| "perform now (TimerAutoConnect provider_isConnected) st =
     (case autoConnectTimer st of
        None \<Rightarrow> st
      | Some due \<Rightarrow> if due \<le> now then autoConnect_timeout st provider_isConnected else st)"
| "perform now (EvConnect pk accs) st = (if initialized st then connect_event st pk accs else st)"
| "perform now EvDisconnect st = (if initialized st then disconnect_event st else st)"
| "perform now (EvAccountChanged pk) st =
     (if initialized st then accountChanged_event st pk else st)"
| "perform now DoClearError st = clearError st"
| "perform now CallConnect st = fst (connect_begin st)"
| "perform now (EndConnect r) st = connect_end st r"
| "perform now CallDisconnect st = fst (disconnect_begin st)"
| "perform now (EndDisconnect r) st = disconnect_end st r"
| "perform now CallGetAccounts st = fst (getAccounts_begin st)"
| "perform now (EndGetAccounts r) st = fst (getAccounts_end st r)"
| "perform now (CallGetAccountInfo addr) st = fst (getAccountInfo_begin st now addr)"
| "perform now (SettleAccountInfo target r) st = accountInfo_settled st now target r"
| "perform now (EndGetAccountInfo r) st = fst (getAccountInfo_end st r)"
| "perform now (CallGetBalance addr now2) st = fst (getBalance_begin st now now2 addr)"
| "perform now (EndGetBalance r) st = fst (getBalance_end st r)"
| "perform now (CallSendTransaction dest amount) st = fst (sendTransaction_begin st dest amount)"
| "perform now (ResolvedSendTransaction pk dest amount r) st =
     fst (sendTransaction_resolved st pk dest amount r)"
| "perform now (EndSendTransaction r) st = fst (sendTransaction_end st r)"
| "perform now (CallSignMessage msg enc) st = fst (signMessage_begin st msg enc)"
| "perform now (EndSignMessage r) st = fst (signMessage_end st r)"
| "perform now (CallVerifySignedMessage msg sg pk enc) st =
     fst (verifySignedMessage_begin st msg sg pk enc)"
| "perform now (EndVerifySignedMessage r) st = fst (verifySignedMessage_end st r)"
| "perform now (CallSignBlock b) st = fst (signBlock_begin st b)"
| "perform now (EndSignBlock r) st = fst (signBlock_end st r)"
| "perform now (CallSendBlock b) st = fst (sendBlock_begin st b)"
| "perform now (EndSendBlock r) st = fst (sendBlock_end st r)"
| "perform now (CallResolveBNS n) st = fst (resolveBNS_begin st n)"
| "perform now (EndResolveBNS n r) st = fst (resolveBNS_end st n r)"
| "perform now Render st = render st now"

definition step :: "int \<times> step \<Rightarrow> bridge \<Rightarrow> bridge" where
  "step ts st = perform (fst ts) (snd ts) st"

fun run :: "(int \<times> step) list \<Rightarrow> bridge \<Rightarrow> bridge" where
  "run [] st = st"
| "run (ts # rest) st = run rest (step ts st)"

text \<open>
  Discovery left to itself: each pending poll timer fires exactly when it is due and
  finds \<open>window.banano\<close> as \<open>window\<close> says for that time. The result is the state once no
  poll timer is pending, with the times of all checks made. The loop ends because a
  check sets a new timer only while \<open>retryCount\<close> is below \<open>maxRetries\<close>, and then
  increments it.
\<close>

function poll_loop :: "(int \<Rightarrow> bool) \<Rightarrow> bridge \<Rightarrow> int list \<Rightarrow> bridge \<times> int list" where
  "poll_loop window st checks =
     (case pollTimer st of
        None \<Rightarrow> (st, checks)
      | Some due \<Rightarrow>
          poll_loop window (step (due, TimerPoll (window due)) st) (checks @ [due]))"
  by pat_completeness auto
termination
proof (relation "measure (\<lambda>(window, st, checks).
          case pollTimer st of None \<Rightarrow> 0 | Some due \<Rightarrow> Suc (maxRetries - retryCount st))")
  show "wf (measure (\<lambda>(window, st, checks).
          case pollTimer st of None \<Rightarrow> 0 | Some due \<Rightarrow> Suc (maxRetries - retryCount st)))"
    by simp
next
  fix window :: "int \<Rightarrow> bool" and st :: bridge and checks :: "int list" and due :: int
  assume "pollTimer st = Some due"
  then show "((window, step (due, TimerPoll (window due)) st, checks @ [due]), (window, st, checks))
      \<in> measure (\<lambda>(window, st, checks).
          case pollTimer st of None \<Rightarrow> 0 | Some due \<Rightarrow> Suc (maxRetries - retryCount st))"
    by (auto simp: step_def tryInitialize_def initializeProvider_def Let_def maxRetries_def
        split: option.splits)
qed

definition discovery :: "bool \<Rightarrow> (int \<Rightarrow> bool) \<Rightarrow> int \<Rightarrow> bridge \<times> int list" where
  "discovery auto window t0 = poll_loop window (mount auto t0 (window t0)) [t0]"

section \<open>The signature verification endpoint (src/app/api/verify-signature/route.ts)\<close>

text \<open>
  A property of the parsed JSON body as the handler can observe it: a string, or any
  other value, of which the handler uses only its truthiness and the text a template
  literal makes of it. A property the body does not have is \<open>undefined\<close>.
\<close>

datatype jsval = JStr string | JOther bool string

definition js_undefined :: jsval where
  "js_undefined = JOther False ''undefined''"

fun js_truthy :: "jsval \<Rightarrow> bool" where
  "js_truthy (JStr s) = (s \<noteq> [])"
| "js_truthy (JOther t txt) = t"

fun js_text :: "jsval \<Rightarrow> string" where
  "js_text (JStr s) = s"
| "js_text (JOther t txt) = txt"

text \<open>
  What \<open>await request.json()\<close> gives: it throws on a body that is not JSON; \<open>null\<close>
  cannot be destructured; of any other value the handler reads the four properties
  \<open>message\<close>, \<open>signature\<close>, \<open>publicKey\<close> and \<open>origin\<close>.
\<close>

datatype body = BodyInvalid | BodyNull | BodyFields jsval jsval jsval jsval

datatype response = Response
  (status: nat) (valid: bool) (resp_message: "string option") (resp_error: "string option")
  (verifiedAt: "string option")

text \<open>
  The two functions of \<open>bananojs.BananoUtil\<close> the handler calls. The library is not part
  of the repository: each is a parameter, and may throw.
\<close>

record bananojs =
  getAccountPublicKey :: "string \<Rightarrow> thrown + string"
  verifyMessage :: "string \<Rightarrow> string \<Rightarrow> string \<Rightarrow> thrown + bool"

definition internal_server_error :: response where
  "internal_server_error = Response 500 False None (Some ''Internal server error'') None"

definition missing_parameters :: response where
  "missing_parameters =
     Response 400 False None
       (Some ''Missing required parameters: message, signature, publicKey'') None"

text \<open>The inner \<open>catch (verifyError)\<close>: no status is given, so it is 200.\<close>

definition verification_error :: "thrown \<Rightarrow> response" where
  "verification_error verifyError =
     Response 200 False (Some ''Signature verification failed'')
       (Some (case verifyError of
                ErrorObject m \<Rightarrow> m
              | NonError mo \<Rightarrow> ''Unknown verification error''))
       None"

text \<open>
  \<open>origin || request.headers.get('origin') || 'unknown'\<close>, as the template literal
  renders it, and the domain-separated message
  \<open>`MonkeyMask Signed Message:\nOrigin: ${verificationOrigin}\nMessage: ${message}`\<close>.
\<close>

definition verificationOrigin_of :: "jsval \<Rightarrow> string option \<Rightarrow> string" where
  "verificationOrigin_of origin header =
     (if js_truthy origin then js_text origin
      else if truthy header then or_empty header
      else ''unknown'')"

definition messageToVerify_of :: "string \<Rightarrow> string \<Rightarrow> string" where
  "messageToVerify_of verificationOrigin msg =
     ''MonkeyMask Signed Message:'' @ [CHR 0x0A] @ ''Origin: '' @ verificationOrigin
       @ [CHR 0x0A] @ ''Message: '' @ msg"

text \<open>
  The conversion of the public key: a \<open>ban_\<close> address goes through the library, and any
  failure there is rethrown as \<open>new Error('Invalid Banano address format')\<close>; anything
  else is taken to be the hex key already.
\<close>

definition hexPublicKey_of :: "bananojs \<Rightarrow> string \<Rightarrow> thrown + string" where
  "hexPublicKey_of lib pk =
     (if startsWith pk ''ban_''
      then (case getAccountPublicKey lib pk of
              Inl conversionError \<Rightarrow> Inl (ErrorObject ''Invalid Banano address format'')
            | Inr hex \<Rightarrow> Inr hex)
      else Inr pk)"

text \<open>
  The inner \<open>try\<close> block, the verification step. \<open>nowISO\<close> is
  \<open>new Date().toISOString()\<close>.
\<close>

definition verify_signature ::
  "bananojs \<Rightarrow> string \<Rightarrow> string \<Rightarrow> string \<Rightarrow> string \<Rightarrow> string \<Rightarrow> response" where
  "verify_signature lib msg signature pk verificationOrigin nowISO =
     (let messageToVerify = messageToVerify_of verificationOrigin msg
      in case hexPublicKey_of lib pk of
           Inl verifyError \<Rightarrow> verification_error verifyError
         | Inr hexPublicKey \<Rightarrow>
             (case verifyMessage lib hexPublicKey messageToVerify signature of
                Inl verifyError \<Rightarrow> verification_error verifyError
              | Inr isValid \<Rightarrow>
                  Response 200 isValid
                    (Some (if isValid then ''Signature verified successfully''
                           else ''Signature verification failed''))
                    None (Some nowISO)))"

text \<open>
  The handler. After the check for missing parameters it logs
  \<open>message.substring(..)\<close>, \<open>signature.substring(..)\<close> and \<open>publicKey.substring(..)\<close>, which
  throws for a truthy value that is not a string; that, like a body that cannot be
  parsed or destructured, is caught by the outer \<open>catch\<close>. \<open>header\<close> is
  \<open>request.headers.get('origin')\<close>.
\<close>

definition POST :: "bananojs \<Rightarrow> body \<Rightarrow> string option \<Rightarrow> string \<Rightarrow> response" where
  "POST lib b header nowISO =
     (case b of
        BodyInvalid \<Rightarrow> internal_server_error
      | BodyNull \<Rightarrow> internal_server_error
      | BodyFields msg signature pk origin \<Rightarrow>
          if \<not> js_truthy msg \<or> \<not> js_truthy signature \<or> \<not> js_truthy pk
          then missing_parameters
          else
            let verificationOrigin = verificationOrigin_of origin header
            in (case (msg, signature, pk) of
                  (JStr m, JStr s, JStr k) \<Rightarrow> verify_signature lib m s k verificationOrigin nowISO
                | _ \<Rightarrow> internal_server_error))"

section \<open>The error taxonomy of the specification\<close>

text \<open>
  Section 7 of the specification sorts an error message into four classes by the
  substrings it contains, and says what is surfaced for each: a lost capability forces
  the disconnected state, clears the account and the account list and tells the user to
  reload; a locked wallet is surfaced as an advisory; a user rejection as a benign
  outcome; anything else verbatim. \<open>record_error\<close> is that description, written
  independently of \<open>handleError\<close>, to compare the code with. The raw message goes to the
  \<open>onError\<close> callback.
\<close>

datatype error_class = CapabilityLost | LockedWallet | UserRejection | Uncategorized

definition error_class_of :: "string \<Rightarrow> error_class" where
  "error_class_of msg =
     (if includes_str msg ''Extension context invalidated''
         \<or> includes_str msg ''context invalidated''
         \<or> includes_str msg ''message port closed'' then CapabilityLost
      else if includes_str msg ''Wallet is locked''
         \<or> includes_str msg ''locked''
         \<or> includes_str msg ''unlock'' then LockedWallet
      else if includes_str msg ''User rejected''
         \<or> includes_str msg ''rejected'' then UserRejection
      else Uncategorized)"

fun surfaced_message :: "error_class \<Rightarrow> string \<Rightarrow> string" where
  "surfaced_message CapabilityLost msg = ''Extension connection lost. Please refresh the page.''"
| "surfaced_message LockedWallet msg =
     ''Wallet is locked. The extension will prompt you to unlock for this transaction.''"
| "surfaced_message UserRejection msg = ''Transaction was rejected by user.''"
| "surfaced_message Uncategorized msg = msg"

definition record_error :: "bridge \<Rightarrow> string \<Rightarrow> bridge" where
  "record_error st msg =
     (if error_class_of msg = CapabilityLost
      then st\<lparr> isConnected := False, publicKey := None, accounts := [],
               error := Some (surfaced_message (error_class_of msg) msg),
               callbacks := callbacks st @ [OnError msg] \<rparr>
      else st\<lparr> error := Some (surfaced_message (error_class_of msg) msg),
               callbacks := callbacks st @ [OnError msg] \<rparr>)"

section \<open>Invariants and example values\<close>

text \<open>
  Three invariants of the transition system, used in the proofs below. A bridge that has
  given up discovery: no handle, no listeners, no poll timer. A bridge whose auto-connect
  timer is not pending when its effect last ran with the user-disconnected flag set. A
  bridge in which every address with a request in flight is a non-empty address of a
  present provider and has no cache entry that is fresh at time \<open>t\<close>.
\<close>

definition never_installed :: "bridge \<Rightarrow> bool" where
  "never_installed st =
     (\<not> initialized st \<and> \<not> provider st \<and> \<not> isInstalled st \<and> pollTimer st = None)"

definition timer_guarded :: "bridge \<Rightarrow> bool" where
  "timer_guarded st = (if snd (snd (effectDeps st)) then autoConnectTimer st = None else True)"



text \<open>
  Concrete values for the examples: an account record, a bridge that found the handle
  at time 0 and received \<open>connect\<close> for \<open>ban_1abc\<close> at time 10, the same bridge after a transfer
  that the user rejected, and a verification library whose two functions always throw.
\<close>

definition info0 :: AccountInfo where
  "info0 = \<lparr> address = ''ban_1abc'', balance = ''19.5'', pending = ''0'',
             rawBalance = ''1950000000000000000000000000000'', rawPending = ''0'' \<rparr>"

definition connected0 :: bridge where
  "connected0 = run [(10, EvConnect ''ban_1abc'' None)] (mount True 0 True)"

definition rejected0 :: bridge where
  "rejected0 =
     run [(10, EvConnect ''ban_1abc'' None),
          (20, CallSendTransaction ''ban_3dest'' ''1''),
          (30, EndSendTransaction (Inl (ErrorObject ''User rejected the request'')))]
       (mount True 0 True)"

definition lib0 :: bananojs where
  "lib0 = \<lparr> getAccountPublicKey = (\<lambda>a. Inl (ErrorObject ''Invalid account'')),
            verifyMessage = (\<lambda>k m s. Inl (ErrorObject ''Invalid signature length'')) \<rparr>"

section \<open>Properties\<close>

lemma handleError_frame [simp]:
  "provider (handleError st e d) = provider st"
  "isInstalled (handleError st e d) = isInstalled st"
  "isConnecting (handleError st e d) = isConnecting st"
  "userDisconnected (handleError st e d) = userDisconnected st"
  "accountInfoCache (handleError st e d) = accountInfoCache st"
  "accountInfoInFlight (handleError st e d) = accountInfoInFlight st"
  "initialized (handleError st e d) = initialized st"
  "retryCount (handleError st e d) = retryCount st"
  "pollTimer (handleError st e d) = pollTimer st"
  "autoConnectTimer (handleError st e d) = autoConnectTimer st"
  "effectDeps (handleError st e d) = effectDeps st"
  "autoConnect (handleError st e d) = autoConnect st"
  "calls (handleError st e d) = calls st"
  "callbacks (handleError st e d) = callbacks st @ [OnError (errorMessage_of e d)]"
  by (simp_all add: handleError_def Let_def)

lemma handleError_records_error: "error (handleError st e d) \<noteq> None"
  by (simp add: handleError_def Let_def)

text \<open>The code's \<open>handleError\<close> does what the taxonomy of the specification says.\<close>

lemma handleError_classified:
  "handleError st e d = record_error st (errorMessage_of e d)"
  by (simp add: handleError_def record_error_def error_class_of_def Let_def)

subsection \<open>Shared lemmas\<close>

lemmas wrapper_defs =
  connect_begin_def connect_end_def disconnect_begin_def disconnect_end_def
  getAccounts_begin_def getAccounts_end_def getAccountInfo_begin_def accountInfo_settled_def
  getAccountInfo_end_def getBalance_begin_def getBalance_end_def sendTransaction_begin_def
  sendTransaction_resolved_def sendTransaction_end_def signMessage_begin_def signMessage_end_def
  verifySignedMessage_begin_def verifySignedMessage_end_def signBlock_begin_def signBlock_end_def
  sendBlock_begin_def sendBlock_end_def resolveBNS_begin_def resolveBNS_end_def
  not_installed_def no_account_def call_provider_def clearError_def

lemmas mount_defs =
  mount_def render_def step_def autoConnect_effect_def tryInitialize_def
  initializeProvider_def initial_def maxRetries_def Let_def

lemma not_installed_error:
  "error (not_installed st) = Some ''MonkeyMask not installed''"
  "callbacks (not_installed st) = callbacks st @ [OnError ''MonkeyMask not installed'']"
  by (simp_all add: not_installed_def handleError_def errorMessage_of_def Let_def)

lemma connected0_eq:
  "connected0 = (initial True)\<lparr> provider := True, isInstalled := True, initialized := True,
      isConnected := True, publicKey := Some ''ban_1abc'', accounts := [''ban_1abc''],
      autoConnectTimer := Some 800, effectDeps := (True, True, False),
      callbacks := [OnConnect ''ban_1abc''] \<rparr>"
  by (simp add: connected0_def mount_defs connect_event_def clearError_def)

lemma rejected0_eq:
  "rejected0 = connected0\<lparr> error := Some ''Transaction was rejected by user.'',
      calls := [PSendTransaction ''ban_1abc'' ''ban_3dest'' ''1''],
      callbacks := [OnConnect ''ban_1abc'', OnError ''User rejected the request''] \<rparr>"
  by (simp add: rejected0_def connected0_def mount_defs connect_event_def clearError_def
      sendTransaction_begin_def sendTransaction_end_def call_provider_def handleError_def
      errorMessage_of_def)

subsection \<open>The \<open>accountChanged\<close> event\<close>

text \<open>
  C4 (as the code has it). Handling \<open>accountChanged(K)\<close> leaves the state that handling
  \<open>connect\<close> with public key \<open>K\<close> and account list \<open>[K]\<close> leaves, except for the error
  message and the user-disconnected flag: the \<open>connect\<close> handler resets both, the
  \<open>accountChanged\<close> handler keeps both as they were. Connection status, active account,
  account list, cache and the \<open>onConnect(K)\<close> callback agree, and the two transitions are
  equal exactly when no error was recorded and the flag was not set.
\<close>

theorem accountChanged_vs_connect:
  "accountChanged_event st K
     = (connect_event st K (Some [K]))\<lparr> error := error st, userDisconnected := userDisconnected st \<rparr>
   \<and> (accountChanged_event st K = connect_event st K (Some [K])
        \<longleftrightarrow> error st = None \<and> \<not> userDisconnected st)"
proof -
  have shape: "accountChanged_event st K
     = (connect_event st K (Some [K]))\<lparr> error := error st, userDisconnected := userDisconnected st \<rparr>"
    by (simp add: accountChanged_event_def connect_event_def clearError_def)
  have only_if: "error st = None \<and> \<not> userDisconnected st"
    if eq: "accountChanged_event st K = connect_event st K (Some [K])"
  proof -
    from eq have "error (accountChanged_event st K) = error (connect_event st K (Some [K]))"
      and "userDisconnected (accountChanged_event st K)
           = userDisconnected (connect_event st K (Some [K]))"
      by simp_all
    then show ?thesis
      by (simp add: accountChanged_event_def connect_event_def clearError_def)
  qed
  have "if": "accountChanged_event st K = connect_event st K (Some [K])"
    if "error st = None \<and> \<not> userDisconnected st"
    using that by (simp add: accountChanged_event_def connect_event_def clearError_def)
  from shape only_if "if" show ?thesis by blast
qed

theorem accountChanged_vs_connect_witness:
  "accountChanged_event connected0 ''ban_2xyz''
     = connect_event connected0 ''ban_2xyz'' (Some [''ban_2xyz''])"
proof -
  have "error connected0 = None \<and> \<not> userDisconnected connected0"
    by (simp add: connected0_eq initial_def)
  with accountChanged_vs_connect [of connected0 "''ban_2xyz''"] show ?thesis
    by blast
qed

text \<open>
  C4 as stated fails. After a transfer that the user rejected, an error is on record;
  a \<open>connect\<close> event clears it and an \<open>accountChanged\<close> event does not.
\<close>

theorem accountChanged_not_connect_counterexample:
  "error rejected0 = Some ''Transaction was rejected by user.''
   \<and> error (step (40, EvAccountChanged ''ban_2xyz'') rejected0)
       = Some ''Transaction was rejected by user.''
   \<and> error (step (40, EvConnect ''ban_2xyz'' (Some [''ban_2xyz''])) rejected0) = None
   \<and> accountChanged_event rejected0 ''ban_2xyz''
       \<noteq> connect_event rejected0 ''ban_2xyz'' (Some [''ban_2xyz''])"
proof -
  have i: "initialized rejected0"
    by (simp add: rejected0_eq connected0_eq initial_def)
  have e: "error rejected0 = Some ''Transaction was rejected by user.''"
    by (simp add: rejected0_eq)
  have a: "error (accountChanged_event rejected0 ''ban_2xyz'') = Some ''Transaction was rejected by user.''"
    by (simp add: accountChanged_event_def e)
  have b: "error (connect_event rejected0 ''ban_2xyz'' (Some [''ban_2xyz''])) = None"
    by (simp add: connect_event_def clearError_def)
  from a b have ne: "accountChanged_event rejected0 ''ban_2xyz''
      \<noteq> connect_event rejected0 ''ban_2xyz'' (Some [''ban_2xyz''])"
    by (metis option.distinct(1))
  have a': "error (step (40, EvAccountChanged ''ban_2xyz'') rejected0)
       = Some ''Transaction was rejected by user.''"
    using i a by (simp add: step_def)
  have b': "error (step (40, EvConnect ''ban_2xyz'' (Some [''ban_2xyz''])) rejected0) = None"
    using i b by (simp add: step_def)
  from e a' b' ne show ?thesis by blast
qed

subsection \<open>Account info: de-duplication of requests in flight\<close>















subsection \<open>Account info: time to live of a cache entry\<close>

text \<open>
  C2. Let \<open>getAccountInfo(A)\<close> be called at time \<open>now\<close> with the handle present, and let
  the cache hold an entry for \<open>A\<close> captured at \<open>ts\<close>. If the entry is younger than
  5000 ms the call returns its data and leaves the state as it was (no provider call).
  If it is 5000 ms old or older and no request for \<open>A\<close> is in flight, the call adds
  exactly one provider call, \<open>getAccountInfo(A)\<close>, registers it in flight and suspends
  on it. \<open>getAccountInfo()\<close> without an address does the same when \<open>A\<close> is the active
  account. When a request for \<open>A\<close> resolves at time \<open>now'\<close>, the cache entry of \<open>A\<close> is
  the new result with the timestamp \<open>now'\<close>.
\<close>

theorem getAccountInfo_cache_ttl:
  assumes "provider st" and "A \<noteq> []"
    and "accountInfoCache st A = Some (ts, info)"
  shows "(now - ts < 5000 \<longrightarrow> getAccountInfo_begin st now (Some A) = (st, Returned (Some info)))
    \<and> (5000 \<le> now - ts \<and> accountInfoInFlight st A = None \<longrightarrow>
         getAccountInfo_begin st now (Some A)
           = (st\<lparr> accountInfoInFlight := (accountInfoInFlight st)(A \<mapsto> length (calls st)),
                  calls := calls st @ [PGetAccountInfo A] \<rparr>,
              Awaiting (length (calls st))))
    \<and> (publicKey st = Some A \<longrightarrow>
         getAccountInfo_begin st now None = getAccountInfo_begin st now (Some A))
    \<and> accountInfoCache (accountInfo_settled st' now' A (Inr info')) A = Some (now', info')"
  using assms
  by (simp add: getAccountInfo_begin_def target_of_def fresh_def ACCOUNT_INFO_TTL_MS_def
      call_provider_def accountInfo_settled_def Let_def)

theorem getAccountInfo_cache_ttl_witness:
  "getAccountInfo_begin (connected0\<lparr> accountInfoCache := [''ban_1abc'' \<mapsto> (1000, info0)] \<rparr>) 5999
       (Some ''ban_1abc'')
     = (connected0\<lparr> accountInfoCache := [''ban_1abc'' \<mapsto> (1000, info0)] \<rparr>, Returned (Some info0))
   \<and> getAccountInfo_begin (connected0\<lparr> accountInfoCache := [''ban_1abc'' \<mapsto> (1000, info0)] \<rparr>) 6000
       (Some ''ban_1abc'')
     = (connected0\<lparr> accountInfoCache := [''ban_1abc'' \<mapsto> (1000, info0)],
                    accountInfoInFlight := [''ban_1abc'' \<mapsto> 0],
                    calls := [PGetAccountInfo ''ban_1abc''] \<rparr>, Awaiting 0)
   \<and> getAccountInfo_begin (connected0\<lparr> accountInfoCache := [''ban_1abc'' \<mapsto> (1000, info0)] \<rparr>) 5999
       None
     = (connected0\<lparr> accountInfoCache := [''ban_1abc'' \<mapsto> (1000, info0)] \<rparr>, Returned (Some info0))"
proof -
  let ?st = "connected0\<lparr> accountInfoCache := [''ban_1abc'' \<mapsto> (1000, info0)] \<rparr>"
  have p: "provider ?st" by (simp add: connected0_eq)
  have k: "publicKey ?st = Some ''ban_1abc''" by (simp add: connected0_eq)
  have n: "''ban_1abc'' \<noteq> []" by simp
  have c: "accountInfoCache ?st ''ban_1abc'' = Some (1000, info0)" by simp
  have e: "accountInfoInFlight ?st = Map.empty" "calls ?st = []"
    by (simp_all add: connected0_eq initial_def)
  from getAccountInfo_cache_ttl [OF p n c, of 5999]
    getAccountInfo_cache_ttl [OF p n c, of 6000] e k
  show ?thesis by simp
qed

subsection \<open>A disconnect while a request is in flight\<close>

text \<open>
  C3 (as the code has it). The \<open>disconnect\<close> handler empties the cache for all addresses,
  clears the active account and leaves the in-flight registry as it was: the request is
  not aborted. When the request for \<open>A\<close> later resolves, at time \<open>now\<close>, its result is
  stored under \<open>A\<close> with timestamp \<open>now\<close>, so the cache then holds exactly that entry; a
  rejected request stores nothing. With the active account cleared, \<open>getAccountInfo\<close>
  called without an address returns \<open>null\<close> and does not read that entry.
\<close>

theorem disconnect_then_late_result:
  "accountInfoCache (disconnect_event st) = Map.empty
   \<and> accountInfoInFlight (disconnect_event st) = accountInfoInFlight st
   \<and> publicKey (disconnect_event st) = None
   \<and> accountInfoCache (accountInfo_settled (disconnect_event st) now A (Inr info))
       = [A \<mapsto> (now, info)]
   \<and> accountInfoCache (accountInfo_settled (disconnect_event st) now A (Inl e)) = Map.empty
   \<and> snd (getAccountInfo_begin (accountInfo_settled (disconnect_event st) now A r) t None)
       = Returned None"
  by (simp add: disconnect_event_def accountInfo_settled_def getAccountInfo_begin_def target_of_def
      Let_def split: sum.splits)

theorem disconnect_then_late_result_witness:
  "accountInfoCache (accountInfo_settled (disconnect_event connected0) 1200 ''ban_1abc'' (Inr info0))
     = [''ban_1abc'' \<mapsto> (1200, info0)]
   \<and> snd (getAccountInfo_begin
            (accountInfo_settled (disconnect_event connected0) 1200 ''ban_1abc'' (Inr info0)) 1300 None)
     = Returned None"
  using disconnect_then_late_result [of connected0 1200 "''ban_1abc''" info0 "ErrorObject ''Wallet is locked''" "Inr info0" 1300]
  by simp

text \<open>
  C3 as stated fails. The bridge finds the handle, receives \<open>connect\<close> for \<open>ban_1abc\<close>,
  starts \<open>getAccountInfo()\<close> at 1000 and receives \<open>disconnect\<close> at 1100, which empties
  the cache while the request stays in flight. The request resolves at 1200. The cache
  then holds the result under \<open>ban_1abc\<close> with the fresh timestamp 1200, and
  \<open>getAccountInfo('ban_1abc')\<close> at 1300 is answered from it.
\<close>

theorem late_result_repopulates_cache_counterexample:
  "accountInfoCache
     (run [(10, EvConnect ''ban_1abc'' None), (1000, CallGetAccountInfo None), (1100, EvDisconnect)]
        (mount True 0 True))
     = Map.empty
   \<and> accountInfoInFlight
     (run [(10, EvConnect ''ban_1abc'' None), (1000, CallGetAccountInfo None), (1100, EvDisconnect)]
        (mount True 0 True)) ''ban_1abc''
     = Some 0
   \<and> accountInfoCache
     (run [(10, EvConnect ''ban_1abc'' None), (1000, CallGetAccountInfo None), (1100, EvDisconnect),
           (1200, SettleAccountInfo ''ban_1abc'' (Inr info0))] (mount True 0 True)) ''ban_1abc''
     = Some (1200, info0)
   \<and> snd (getAccountInfo_begin
       (run [(10, EvConnect ''ban_1abc'' None), (1000, CallGetAccountInfo None), (1100, EvDisconnect),
             (1200, SettleAccountInfo ''ban_1abc'' (Inr info0))] (mount True 0 True))
       1300 (Some ''ban_1abc''))
     = Returned (Some info0)"
  by (simp add: mount_defs connect_event_def clearError_def getAccountInfo_begin_def
     target_of_def fresh_def call_provider_def disconnect_event_def accountInfo_settled_def
     ACCOUNT_INFO_TTL_MS_def)

subsection \<open>Wrappers called without a provider handle\<close>

text \<open>
  C5 (as the code has it). Called while the provider handle is absent, every wrapper
  except \<open>disconnect\<close> records the error \<open>MonkeyMask not installed\<close>, passes it to
  \<open>onError\<close>, and returns \<open>null\<close> (\<open>getAccounts\<close> the empty list, \<open>connect\<close> nothing)
  without suspending. \<open>disconnect\<close> returns at once and leaves the state, the error
  included, as it was. No wrapper throws: each returns a value.
\<close>

theorem wrappers_without_provider:
  assumes "\<not> provider st"
  shows "connect_begin st = (not_installed st, Returned ())
    \<and> getAccounts_begin st = (not_installed st, Returned [])
    \<and> getBalance_begin st now1 now2 addr = (not_installed st, Returned None)
    \<and> getAccountInfo_begin st now addr = (not_installed st, Returned None)
    \<and> sendTransaction_begin st dest amount = (not_installed st, Returned None)
    \<and> signMessage_begin st msg enc = (not_installed st, Returned None)
    \<and> verifySignedMessage_begin st msg sg pk enc = (not_installed st, Returned None)
    \<and> signBlock_begin st b = (not_installed st, Returned None)
    \<and> sendBlock_begin st b = (not_installed st, Returned None)
    \<and> resolveBNS_begin st n = (not_installed st, Returned None)
    \<and> error (not_installed st) = Some ''MonkeyMask not installed''
    \<and> callbacks (not_installed st) = callbacks st @ [OnError ''MonkeyMask not installed'']
    \<and> disconnect_begin st = (st, Returned ())"
  using assms
  by (simp add: connect_begin_def getAccounts_begin_def getBalance_begin_def getAccountInfo_begin_def
      sendTransaction_begin_def signMessage_begin_def verifySignedMessage_begin_def signBlock_begin_def
      sendBlock_begin_def resolveBNS_begin_def disconnect_begin_def not_installed_error)

theorem wrappers_without_provider_witness:
  "error (fst (sendTransaction_begin (initial True) ''ban_3dest'' ''1'')) = Some ''MonkeyMask not installed''
   \<and> snd (sendTransaction_begin (initial True) ''ban_3dest'' ''1'') = Returned None
   \<and> calls (fst (sendTransaction_begin (initial True) ''ban_3dest'' ''1'')) = []"
proof -
  have p: "\<not> provider (initial True)" by (simp add: initial_def)
  have c: "calls (not_installed (initial True)) = []"
    by (simp add: not_installed_def initial_def)
  from wrappers_without_provider [OF p, of 0 0 None 0 "''ban_3dest''" "''1''"] c
  show ?thesis by simp
qed

text \<open>
  C5 as stated fails for \<open>disconnect\<close>: on a bridge without a handle and without an
  error, \<open>disconnect()\<close> returns and no error is on record.
\<close>

theorem disconnect_without_provider_counterexample:
  "\<not> provider (initial True)
   \<and> disconnect_begin (initial True) = (initial True, Returned ())
   \<and> error (fst (disconnect_begin (initial True))) = None
   \<and> callbacks (fst (disconnect_begin (initial True))) = []"
  by (simp add: disconnect_begin_def initial_def)

subsection \<open>Discovery\<close>

lemma perform_never_installed:
  assumes "never_installed st"
  shows "never_installed (perform now s st)"
  using assms
  by (cases s)
     (simp_all add: never_installed_def wrapper_defs autoConnect_timeout_def render_def
        autoConnect_effect_def Let_def split: option.splits sum.splits)

lemma step_never_installed:
  assumes "never_installed st"
  shows "never_installed (step ts st)"
  using perform_never_installed [OF assms] by (simp add: step_def)

lemma run_never_installed:
  "never_installed st \<Longrightarrow> never_installed (run steps st)"
  by (induction steps arbitrary: st) (simp_all add: step_never_installed)

lemma discovery_absent:
  "discovery auto (\<lambda>t. False) t0
     = ((initial auto)\<lparr> retryCount := 3 \<rparr>, [t0, t0 + 500, t0 + 1000, t0 + 1500])"
  by (simp add: discovery_def mount_defs)

text \<open>
  C6. When the handle is never there, the bridge checks for it when it mounts, at \<open>t0\<close>,
  and then on a timer 500 ms after each failed check, three times (\<open>maxRetries\<close>): at
  \<open>t0 + 500\<close>, \<open>t0 + 1000\<close> and \<open>t0 + 1500\<close>. After the last check no poll timer is
  pending and \<open>isInstalled\<close> is false. Whatever happens afterwards, \<open>isInstalled\<close> and
  \<open>provider\<close> stay false and no poll timer is ever set again, also if \<open>window.banano\<close>
  appears later.
\<close>

theorem discovery_bounded:
  "snd (discovery auto (\<lambda>t. False) t0) = [t0, t0 + 500, t0 + 1000, t0 + 1500]
   \<and> \<not> isInstalled (fst (discovery auto (\<lambda>t. False) t0))
   \<and> pollTimer (fst (discovery auto (\<lambda>t. False) t0)) = None
   \<and> (\<forall>steps. \<not> isInstalled (run steps (fst (discovery auto (\<lambda>t. False) t0)))
         \<and> pollTimer (run steps (fst (discovery auto (\<lambda>t. False) t0))) = None
         \<and> \<not> provider (run steps (fst (discovery auto (\<lambda>t. False) t0))))"
proof -
  let ?s = "fst (discovery auto (\<lambda>t. False) t0)"
  have s: "?s = (initial auto)\<lparr> retryCount := 3 \<rparr>"
    by (simp add: discovery_absent)
  have n: "never_installed ?s"
    by (simp add: s never_installed_def initial_def)
  have "never_installed (run steps ?s)" for steps
    using n by (rule run_never_installed)
  then have later: "\<not> isInstalled (run steps ?s) \<and> pollTimer (run steps ?s) = None
      \<and> \<not> provider (run steps ?s)" for steps
    by (simp add: never_installed_def)
  have now: "\<not> isInstalled ?s \<and> pollTimer ?s = None"
    using n by (simp add: never_installed_def)
  have tr: "snd (discovery auto (\<lambda>t. False) t0) = [t0, t0 + 500, t0 + 1000, t0 + 1500]"
    by (simp add: discovery_absent)
  from tr now later show ?thesis by blast
qed

theorem discovery_bounded_witness:
  "snd (discovery True (\<lambda>t. False) 0) = [0, 500, 1000, 1500]
   \<and> \<not> isInstalled (run [(2000, TimerPoll True), (2500, CallConnect)]
                       (fst (discovery True (\<lambda>t. False) 0)))
   \<and> pollTimer (run [(2000, TimerPoll True), (2500, CallConnect)]
                       (fst (discovery True (\<lambda>t. False) 0))) = None"
proof -
  from discovery_bounded [of True 0]
  have tr: "snd (discovery True (\<lambda>t. False) 0) = [0, 500, 1000, 1500]"
    by simp
  from discovery_bounded [of True 0]
  have later: "\<not> isInstalled (run [(2000, TimerPoll True), (2500, CallConnect)]
                       (fst (discovery True (\<lambda>t. False) 0)))
   \<and> pollTimer (run [(2000, TimerPoll True), (2500, CallConnect)]
                       (fst (discovery True (\<lambda>t. False) 0))) = None"
    by blast
  from tr later show ?thesis by blast
qed

subsection \<open>Automatic reconnection\<close>

lemma perform_timer_guarded:
  assumes "timer_guarded st"
  shows "timer_guarded (perform now s st)"
  using assms
  by (cases s)
     (auto simp: timer_guarded_def wrapper_defs autoConnect_timeout_def tryInitialize_def
        initializeProvider_def connect_event_def disconnect_event_def accountChanged_event_def
        render_def autoConnect_effect_def Let_def
        split: option.splits sum.splits prod.splits outcome.splits if_splits)

lemma mount_timer_guarded: "timer_guarded (mount auto t0 banano)"
  by (simp add: timer_guarded_def mount_defs)

lemma run_timer_guarded:
  "timer_guarded st \<Longrightarrow> timer_guarded (run steps st)"
  by (induction steps arbitrary: st) (simp_all add: step_def perform_timer_guarded)

text \<open>
  What the effect does achieve: in every state the bridge can reach, once the effect
  has run with the user-disconnected flag set, no auto-connect timer is pending, so a
  timer step changes nothing.
\<close>

lemma no_auto_connect_once_rendered:
  assumes "st = run steps (mount auto t0 banano)" and "snd (snd (effectDeps st))"
  shows "autoConnectTimer st = None \<and> step (now, TimerAutoConnect provider_isConnected) st = st"
proof -
  have "timer_guarded st"
    unfolding assms(1) by (rule run_timer_guarded) (rule mount_timer_guarded)
  with assms(2) have "autoConnectTimer st = None"
    by (simp add: timer_guarded_def)
  then show ?thesis by (simp add: step_def)
qed

text \<open>
  C7. The code does not keep this claim. \<open>disconnect()\<close> sets the flag with
  \<open>setUserDisconnected(true)\<close>, but the pending timer is cleared only by the effect's
  cleanup at the next render, and the timer's callback does not look at the flag. The
  bridge finds the handle at time 0, so the effect sets the timer for 800, and a
  \<open>connect\<close> event arrives at 10. The user calls \<open>disconnect()\<close> at 799 and the timer
  fires at 800, before the render: with the flag set, \<open>connect({ onlyIfTrusted: true })\<close>
  is issued after \<open>disconnect()\<close>. Had the render come first, the timer would have been
  cleared and nothing issued.
\<close>

theorem auto_connect_fires_after_disconnect:
  "autoConnectTimer (run [(10, EvConnect ''ban_1abc'' None)] (mount True 0 True)) = Some 800
   \<and> userDisconnected
       (run [(10, EvConnect ''ban_1abc'' None), (799, CallDisconnect)] (mount True 0 True))
   \<and> userDisconnected
       (run [(10, EvConnect ''ban_1abc'' None), (799, CallDisconnect),
             (800, TimerAutoConnect False)] (mount True 0 True))
   \<and> calls (run [(10, EvConnect ''ban_1abc'' None), (799, CallDisconnect),
                  (800, TimerAutoConnect False)] (mount True 0 True))
       = [PDisconnect, PConnect True]
   \<and> calls (run [(10, EvConnect ''ban_1abc'' None), (799, CallDisconnect), (799, Render),
                  (800, TimerAutoConnect False)] (mount True 0 True))
       = [PDisconnect]"
  by (simp add: mount_defs connect_event_def clearError_def disconnect_begin_def
      call_provider_def autoConnect_timeout_def)

subsection \<open>Sending to a name\<close>

text \<open>
  C8. With the handle present and an active account, \<open>sendTransaction\<close> to a destination
  that contains \<open>.ban\<close> or \<open>.banano\<close> first calls the provider's \<open>resolveBNS\<close> with the
  destination, and nothing else, and suspends on it. If the resolution throws, the
  wrapper returns \<open>null\<close> and the state is the one the taxonomy prescribes for the
  message of the thrown value, or for \<open>Failed to resolve BNS name: <destination>\<close> when
  it has none. If the resolution yields no address (\<open>null\<close> or the empty string), the
  wrapper returns \<open>null\<close> and the state is the one the taxonomy prescribes for
  \<open>Failed to resolve BNS name: <destination>\<close>. Recording an error adds no provider call
  and sets the error to the surfaced message of its class, so in neither case is the
  transfer delegated. If the resolution yields an address, the transfer to that address
  is the next provider call.
\<close>

theorem sendTransaction_resolves_name_first:
  assumes "provider st" and "truthy (publicKey st)"
    and "includes_str dest ''.ban'' \<or> includes_str dest ''.banano''"
  shows "sendTransaction_begin st dest amount
           = (st\<lparr> calls := calls st @ [PResolveBNS dest] \<rparr>, Awaiting (length (calls st)))
    \<and> (\<forall>s pk e. sendTransaction_resolved s pk dest amount (Inl e)
          = (record_error s
               (case message_of e of
                  None \<Rightarrow> ''Failed to resolve BNS name: '' @ dest
                | Some m \<Rightarrow> if m = [] then ''Failed to resolve BNS name: '' @ dest else m),
             Returned None))
    \<and> (\<forall>s pk a. \<not> truthy a \<longrightarrow>
          sendTransaction_resolved s pk dest amount (Inr a)
            = (record_error s (''Failed to resolve BNS name: '' @ dest), Returned None))
    \<and> (\<forall>s msg. calls (record_error s msg) = calls s
          \<and> error (record_error s msg) = Some (surfaced_message (error_class_of msg) msg)
          \<and> callbacks (record_error s msg) = callbacks s @ [OnError msg])
    \<and> (\<forall>s pk a. a \<noteq> [] \<longrightarrow> sendTransaction_resolved s pk dest amount (Inr (Some a))
            = (s\<lparr> calls := calls s @ [PSendTransaction pk a amount] \<rparr>, Awaiting (length (calls s))))"
proof -
  have first: "sendTransaction_begin st dest amount
      = (st\<lparr> calls := calls st @ [PResolveBNS dest] \<rparr>, Awaiting (length (calls st)))"
    using assms by (auto simp: sendTransaction_begin_def call_provider_def)
  have thrown: "sendTransaction_resolved s pk dest amount (Inl e)
      = (record_error s
           (case message_of e of
              None \<Rightarrow> ''Failed to resolve BNS name: '' @ dest
            | Some m \<Rightarrow> if m = [] then ''Failed to resolve BNS name: '' @ dest else m),
         Returned None)" for s pk e
    by (simp add: sendTransaction_resolved_def handleError_classified errorMessage_of_def
        split: option.splits)
  have none: "sendTransaction_resolved s pk dest amount (Inr a)
      = (record_error s (''Failed to resolve BNS name: '' @ dest), Returned None)"
    if "\<not> truthy a" for s pk a
    using that
    by (simp add: sendTransaction_resolved_def handleError_classified errorMessage_of_def)
  have recorded: "calls (record_error s msg) = calls s
      \<and> error (record_error s msg) = Some (surfaced_message (error_class_of msg) msg)
      \<and> callbacks (record_error s msg) = callbacks s @ [OnError msg]" for s msg
    by (simp add: record_error_def)
  have found: "sendTransaction_resolved s pk dest amount (Inr (Some a))
      = (s\<lparr> calls := calls s @ [PSendTransaction pk a amount] \<rparr>, Awaiting (length (calls s)))"
    if "a \<noteq> []" for s pk a
    using that by (simp add: sendTransaction_resolved_def call_provider_def)
  from first thrown none recorded found show ?thesis by blast
qed

theorem sendTransaction_resolves_name_first_witness:
  "sendTransaction_begin connected0 ''unlock.ban'' ''19''
     = (connected0\<lparr> calls := [PResolveBNS ''unlock.ban''] \<rparr>, Awaiting 0)
   \<and> snd (sendTransaction_resolved (connected0\<lparr> calls := [PResolveBNS ''unlock.ban''] \<rparr>)
            ''ban_1abc'' ''unlock.ban'' ''19'' (Inr None)) = Returned None
   \<and> calls (fst (sendTransaction_resolved (connected0\<lparr> calls := [PResolveBNS ''unlock.ban''] \<rparr>)
            ''ban_1abc'' ''unlock.ban'' ''19'' (Inr None))) = [PResolveBNS ''unlock.ban'']
   \<and> error (fst (sendTransaction_resolved (connected0\<lparr> calls := [PResolveBNS ''unlock.ban''] \<rparr>)
            ''ban_1abc'' ''unlock.ban'' ''19'' (Inr None)))
       = Some ''Wallet is locked. The extension will prompt you to unlock for this transaction.''
   \<and> error (fst (sendTransaction_resolved (connected0\<lparr> calls := [PResolveBNS ''unlock.ban''] \<rparr>)
            ''ban_1abc'' ''unlock.ban'' ''19'' (Inl (ErrorObject ''Name service unavailable''))))
       = Some ''Name service unavailable''"
proof -
  have p: "provider connected0" and k: "truthy (publicKey connected0)"
    and c: "calls connected0 = []"
    by (simp_all add: connected0_eq initial_def)
  have i: "includes_str ''unlock.ban'' ''.ban'' \<or> includes_str ''unlock.ban'' ''.banano''"
    by simp
  have locked: "error_class_of ''Failed to resolve BNS name: unlock.ban'' = LockedWallet"
    by (simp add: error_class_of_def)
  have other: "error_class_of ''Name service unavailable'' = Uncategorized"
    by (simp add: error_class_of_def)
  have t: "\<not> truthy None" by simp
  from sendTransaction_resolves_name_first [OF p k i, of "''19''"] c locked other t
  show ?thesis by simp
qed

subsection \<open>When the error state is cleared\<close>

lemma perform_error:
  "error (perform now s st) = error st
   \<or> s = CallConnect \<or> s = DoClearError \<or> (\<exists>pk accs. s = EvConnect pk accs)
   \<or> (\<exists>m. callbacks (perform now s st) = callbacks st @ [OnError m])"
  by (cases s)
     (auto simp: wrapper_defs autoConnect_timeout_def tryInitialize_def initializeProvider_def
        disconnect_event_def accountChanged_event_def render_def autoConnect_effect_def Let_def
        split: option.splits sum.splits prod.splits outcome.splits)

text \<open>
  C9 (as the code has it). Of the action wrappers only \<open>connect\<close> resets the error
  message before it delegates to the provider. With the handle present, \<open>disconnect\<close>,
  \<open>getAccounts\<close> and \<open>resolveBNS\<close> make their provider call, and \<open>getAccountInfo\<close> and
  \<open>getBalance\<close> reach their suspension or return, with the error message as it was; with
  an account to act for, so do \<open>sendTransaction\<close>, \<open>signMessage\<close>, \<open>verifySignedMessage\<close>,
  \<open>signBlock\<close> and \<open>sendBlock\<close>. It is still as it was after the provider call succeeds.
  In the whole transition system a step changes the error message only if it is a call
  of \<open>connect\<close>, a call of \<open>clearError\<close>, a \<open>connect\<close> event, or a failure, which records
  a new error and reports it to \<open>onError\<close>.
\<close>

theorem only_connect_clears_error:
  "(provider st \<longrightarrow>
       connect_begin st
         = (st\<lparr> isConnecting := True, error := None, userDisconnected := False,
                calls := calls st @ [PConnect False] \<rparr>, Awaiting (length (calls st)))
     \<and> disconnect_begin st
         = (st\<lparr> userDisconnected := True, calls := calls st @ [PDisconnect] \<rparr>,
            Awaiting (length (calls st)))
     \<and> getAccounts_begin st
         = (st\<lparr> calls := calls st @ [PGetAccounts] \<rparr>, Awaiting (length (calls st)))
     \<and> resolveBNS_begin st n
         = (st\<lparr> calls := calls st @ [PResolveBNS n] \<rparr>, Awaiting (length (calls st)))
     \<and> error (fst (getAccountInfo_begin st now addr)) = error st
     \<and> error (fst (getBalance_begin st now1 now2 addr)) = error st)
   \<and> (provider st \<and> truthy (publicKey st) \<longrightarrow>
       error (fst (sendTransaction_begin st dest amount)) = error st
     \<and> snd (sendTransaction_begin st dest amount) = Awaiting (length (calls st))
     \<and> error (fst (signMessage_begin st msg enc)) = error st
     \<and> snd (signMessage_begin st msg enc) = Awaiting (length (calls st))
     \<and> signBlock_begin st b
         = (st\<lparr> calls := calls st @ [PSignBlock b] \<rparr>, Awaiting (length (calls st)))
     \<and> sendBlock_begin st b
         = (st\<lparr> calls := calls st @ [PSendBlock b] \<rparr>, Awaiting (length (calls st))))
   \<and> (provider st \<and> (truthy pk \<or> truthy (publicKey st)) \<longrightarrow>
       error (fst (verifySignedMessage_begin st msg sg pk enc)) = error st
     \<and> snd (verifySignedMessage_begin st msg sg pk enc) = Awaiting (length (calls st)))
   \<and> error (connect_end st None) = error st
   \<and> error (disconnect_end st None) = error st
   \<and> error (fst (getAccounts_end st (Inr accs))) = error st
   \<and> error (accountInfo_settled st now target r) = error st
   \<and> error (fst (getAccountInfo_end st (Inr info))) = error st
   \<and> error (fst (getBalance_end st (Inr info))) = error st
   \<and> (a \<noteq> [] \<longrightarrow> error (fst (sendTransaction_resolved st k dest amount (Inr (Some a)))) = error st)
   \<and> error (fst (sendTransaction_end st (Inr tx))) = error st
   \<and> error (fst (signMessage_end st (Inr sm))) = error st
   \<and> error (fst (verifySignedMessage_end st (Inr v))) = error st
   \<and> error (fst (signBlock_end st (Inr sb))) = error st
   \<and> error (fst (sendBlock_end st (Inr h))) = error st
   \<and> error (fst (resolveBNS_end st n (Inr ra))) = error st
   \<and> (\<forall>t s. error (step (t, s) st) = error st
          \<or> s = CallConnect \<or> s = DoClearError \<or> (\<exists>pk' accs'. s = EvConnect pk' accs')
          \<or> (\<exists>m. callbacks (step (t, s) st) = callbacks st @ [OnError m]))"
proof -
  have begins: "provider st \<longrightarrow>
       connect_begin st
         = (st\<lparr> isConnecting := True, error := None, userDisconnected := False,
                calls := calls st @ [PConnect False] \<rparr>, Awaiting (length (calls st)))
     \<and> disconnect_begin st
         = (st\<lparr> userDisconnected := True, calls := calls st @ [PDisconnect] \<rparr>,
            Awaiting (length (calls st)))
     \<and> getAccounts_begin st
         = (st\<lparr> calls := calls st @ [PGetAccounts] \<rparr>, Awaiting (length (calls st)))
     \<and> resolveBNS_begin st n
         = (st\<lparr> calls := calls st @ [PResolveBNS n] \<rparr>, Awaiting (length (calls st)))
     \<and> error (fst (getAccountInfo_begin st now addr)) = error st
     \<and> error (fst (getBalance_begin st now1 now2 addr)) = error st"
    by (auto simp: connect_begin_def disconnect_begin_def getAccounts_begin_def
        resolveBNS_begin_def getAccountInfo_begin_def getBalance_begin_def call_provider_def
        clearError_def Let_def split: option.splits prod.splits outcome.splits)
  have account: "provider st \<and> truthy (publicKey st) \<longrightarrow>
       error (fst (sendTransaction_begin st dest amount)) = error st
     \<and> snd (sendTransaction_begin st dest amount) = Awaiting (length (calls st))
     \<and> error (fst (signMessage_begin st msg enc)) = error st
     \<and> snd (signMessage_begin st msg enc) = Awaiting (length (calls st))
     \<and> signBlock_begin st b
         = (st\<lparr> calls := calls st @ [PSignBlock b] \<rparr>, Awaiting (length (calls st)))
     \<and> sendBlock_begin st b
         = (st\<lparr> calls := calls st @ [PSendBlock b] \<rparr>, Awaiting (length (calls st)))"
    by (simp add: sendTransaction_begin_def signMessage_begin_def signBlock_begin_def
        sendBlock_begin_def call_provider_def)
  have verify: "provider st \<and> (truthy pk \<or> truthy (publicKey st)) \<longrightarrow>
       error (fst (verifySignedMessage_begin st msg sg pk enc)) = error st
     \<and> snd (verifySignedMessage_begin st msg sg pk enc) = Awaiting (length (calls st))"
    by (auto simp: verifySignedMessage_begin_def call_provider_def Let_def)
  have ends: "error (connect_end st None) = error st
   \<and> error (disconnect_end st None) = error st
   \<and> error (fst (getAccounts_end st (Inr accs))) = error st
   \<and> error (accountInfo_settled st now target r) = error st
   \<and> error (fst (getAccountInfo_end st (Inr info))) = error st
   \<and> error (fst (getBalance_end st (Inr info))) = error st
   \<and> (a \<noteq> [] \<longrightarrow> error (fst (sendTransaction_resolved st k dest amount (Inr (Some a)))) = error st)
   \<and> error (fst (sendTransaction_end st (Inr tx))) = error st
   \<and> error (fst (signMessage_end st (Inr sm))) = error st
   \<and> error (fst (verifySignedMessage_end st (Inr v))) = error st
   \<and> error (fst (signBlock_end st (Inr sb))) = error st
   \<and> error (fst (sendBlock_end st (Inr h))) = error st
   \<and> error (fst (resolveBNS_end st n (Inr ra))) = error st"
    by (simp add: connect_end_def disconnect_end_def getAccounts_end_def accountInfo_settled_def
        getAccountInfo_end_def getBalance_end_def sendTransaction_resolved_def
        sendTransaction_end_def signMessage_end_def verifySignedMessage_end_def signBlock_end_def
        sendBlock_end_def resolveBNS_end_def call_provider_def split: sum.splits)
  have steps: "error (step (t, s) st) = error st
          \<or> s = CallConnect \<or> s = DoClearError \<or> (\<exists>pk' accs'. s = EvConnect pk' accs')
          \<or> (\<exists>m. callbacks (step (t, s) st) = callbacks st @ [OnError m])" for t s
    using perform_error [of t s st] by (simp add: step_def)
  from begins account verify ends steps show ?thesis by blast
qed

theorem only_connect_clears_error_witness:
  "error (fst (connect_begin rejected0)) = None
   \<and> getAccounts_begin (rejected0\<lparr> publicKey := None \<rparr>)
       = (rejected0\<lparr> publicKey := None,
                     calls := [PSendTransaction ''ban_1abc'' ''ban_3dest'' ''1'', PGetAccounts] \<rparr>,
          Awaiting 1)
   \<and> error (fst (signBlock_begin rejected0
        (Block Send ''ban_1abc'' ''0'' ''ban_1rep'' ''0'' ''ban_3dest'' None None None)))
       = Some ''Transaction was rejected by user.''
   \<and> error (step (50, EndGetAccounts (Inr [''ban_1abc''])) rejected0)
       = Some ''Transaction was rejected by user.''"
proof -
  have p: "provider rejected0" and k: "truthy (publicKey rejected0)"
    and e: "error rejected0 = Some ''Transaction was rejected by user.''"
    and c: "calls rejected0 = [PSendTransaction ''ban_1abc'' ''ban_3dest'' ''1'']"
    by (simp_all add: rejected0_eq connected0_eq)
  have p': "provider (rejected0\<lparr> publicKey := None \<rparr>)"
    using p by simp
  have s: "step (50, EndGetAccounts (Inr [''ban_1abc''])) rejected0
      = fst (getAccounts_end rejected0 (Inr [''ban_1abc'']))"
    by (simp add: step_def)
  from only_connect_clears_error [of rejected0]
    only_connect_clears_error [of "rejected0\<lparr> publicKey := None \<rparr>"] p k p' e c s
  show ?thesis by simp
qed

text \<open>
  C9 as stated fails for \<open>sendTransaction\<close>: with an earlier error on record, the wrapper
  delegates the transfer to the provider with that error still in place, and it is
  still in place after the transfer succeeds.
\<close>

theorem sendTransaction_keeps_error_counterexample:
  "error rejected0 = Some ''Transaction was rejected by user.''
   \<and> sendTransaction_begin rejected0 ''ban_3dest'' ''1''
     = (rejected0\<lparr> calls := [PSendTransaction ''ban_1abc'' ''ban_3dest'' ''1'',
                             PSendTransaction ''ban_1abc'' ''ban_3dest'' ''1''] \<rparr>, Awaiting 1)
   \<and> error (fst (sendTransaction_begin rejected0 ''ban_3dest'' ''1''))
     = Some ''Transaction was rejected by user.''
   \<and> error (fst (sendTransaction_end (fst (sendTransaction_begin rejected0 ''ban_3dest'' ''1''))
        (Inr (TransactionResult ''ABCDEF''
           (Block Send ''ban_1abc'' ''0'' ''ban_1rep'' ''0'' ''ban_3dest'' None None None)))))
     = Some ''Transaction was rejected by user.''"
  by (simp add: rejected0_eq connected0_eq initial_def sendTransaction_begin_def
      sendTransaction_end_def call_provider_def)

subsection \<open>The verification endpoint\<close>

text \<open>
  C10. When \<open>POST\<close> gets non-empty strings for \<open>message\<close>, \<open>signature\<close> and \<open>publicKey\<close>,
  so that it reaches the verification step, and the library throws there (in the
  conversion of a \<open>ban_\<close> address, or in \<open>verifyMessage\<close>), the response has status 200,
  \<open>valid: false\<close> and an \<open>error\<close> field. The status is 500 exactly when the handler fails
  before that step: the body is not JSON or is \<open>null\<close>, or the three parameters are all
  present but not all strings.
\<close>

theorem POST_library_failure_is_200:
  assumes "m \<noteq> []" and "s \<noteq> []" and "k \<noteq> []"
    and "(startsWith k ''ban_'' \<and> (\<exists>e. getAccountPublicKey lib k = Inl e))
       \<or> (\<exists>h e. hexPublicKey_of lib k = Inr h
              \<and> verifyMessage lib h (messageToVerify_of (verificationOrigin_of origin header) m) s = Inl e)"
  shows "status (POST lib (BodyFields (JStr m) (JStr s) (JStr k) origin) header nowISO) = 200
    \<and> \<not> valid (POST lib (BodyFields (JStr m) (JStr s) (JStr k) origin) header nowISO)
    \<and> resp_error (POST lib (BodyFields (JStr m) (JStr s) (JStr k) origin) header nowISO) \<noteq> None
    \<and> (\<forall>b. status (POST lib b header nowISO) = 500 \<longleftrightarrow>
          (case b of
             BodyInvalid \<Rightarrow> True
           | BodyNull \<Rightarrow> True
           | BodyFields msg sg pk orig \<Rightarrow>
               js_truthy msg \<and> js_truthy sg \<and> js_truthy pk
               \<and> \<not> (\<exists>m' s' k'. msg = JStr m' \<and> sg = JStr s' \<and> pk = JStr k')))"
proof -
  let ?r = "POST lib (BodyFields (JStr m) (JStr s) (JStr k) origin) header nowISO"
  have reach: "?r = verify_signature lib m s k (verificationOrigin_of origin header) nowISO"
    using assms(1-3) by (simp add: POST_def)
  have err: "\<exists>e. ?r = verification_error e"
    using assms(4)
  proof
    assume "startsWith k ''ban_'' \<and> (\<exists>e. getAccountPublicKey lib k = Inl e)"
    then have "hexPublicKey_of lib k = Inl (ErrorObject ''Invalid Banano address format'')"
      by (auto simp: hexPublicKey_of_def)
    then have "?r = verification_error (ErrorObject ''Invalid Banano address format'')"
      by (simp add: reach verify_signature_def)
    then show ?thesis ..
  next
    assume "\<exists>h e. hexPublicKey_of lib k = Inr h
       \<and> verifyMessage lib h (messageToVerify_of (verificationOrigin_of origin header) m) s = Inl e"
    then obtain h e where "hexPublicKey_of lib k = Inr h"
      and "verifyMessage lib h (messageToVerify_of (verificationOrigin_of origin header) m) s = Inl e"
      by blast
    then have "?r = verification_error e"
      by (simp add: reach verify_signature_def)
    then show ?thesis ..
  qed
  then obtain e where r: "?r = verification_error e" ..
  have a: "status ?r = 200 \<and> \<not> valid ?r \<and> resp_error ?r \<noteq> None"
    by (simp add: r verification_error_def)
  have b: "status (POST lib b header nowISO) = 500 \<longleftrightarrow>
          (case b of
             BodyInvalid \<Rightarrow> True
           | BodyNull \<Rightarrow> True
           | BodyFields msg sg pk orig \<Rightarrow>
               js_truthy msg \<and> js_truthy sg \<and> js_truthy pk
               \<and> \<not> (\<exists>m' s' k'. msg = JStr m' \<and> sg = JStr s' \<and> pk = JStr k'))" for b
    by (auto simp: POST_def verify_signature_def verification_error_def Let_def
        internal_server_error_def missing_parameters_def split: sum.splits body.splits jsval.splits)
  from a b show ?thesis by blast
qed

theorem POST_library_failure_is_200_witness:
  "POST lib0 (BodyFields (JStr ''hello'') (JStr ''zz'') (JStr ''ABCD'') js_undefined) None
       ''2025-01-01T00:00:00.000Z''
     = Response 200 False (Some ''Signature verification failed'')
         (Some ''Invalid signature length'') None
   \<and> status (POST lib0 BodyInvalid None ''2025-01-01T00:00:00.000Z'') = 500"
proof -
  have h: "(startsWith ''ABCD'' ''ban_'' \<and> (\<exists>e. getAccountPublicKey lib0 ''ABCD'' = Inl e))
       \<or> (\<exists>h e. hexPublicKey_of lib0 ''ABCD'' = Inr h
              \<and> verifyMessage lib0 h
                    (messageToVerify_of (verificationOrigin_of js_undefined None) ''hello'') ''zz''
                  = Inl e)"
    by (simp add: hexPublicKey_of_def lib0_def)
  have "''hello'' \<noteq> []" "''zz'' \<noteq> []" "''ABCD'' \<noteq> []" by simp_all
  from POST_library_failure_is_200 [OF this h, of "''2025-01-01T00:00:00.000Z''"]
  show ?thesis
    by (simp add: POST_def verify_signature_def verification_error_def hexPublicKey_of_def lib0_def
        internal_server_error_def)
qed

end
